theory Spec2Isabelle
  imports Main
begin

section \<open>Strings and numbers of the host language\<close>

text \<open>
  Strings are character lists, one \<^typ>\<open>char\<close> per code unit (code units above 255 are
  outside the model). Numbers are exact integers or \<open>NaN\<close>; the rounding of integers
  beyond 53 bits is not modelled.
\<close>

datatype jsnum = NaN | Num int

definition starts_with :: "string \<Rightarrow> string \<Rightarrow> bool" where
  "starts_with p s = (take (length p) s = p)"

text \<open>\<open>s.includes(p)\<close>\<close>

fun includes_str :: "string \<Rightarrow> string \<Rightarrow> bool" where
  "includes_str [] p = (p = [])"
| "includes_str (c # cs) p = (starts_with p (c # cs) \<or> includes_str cs p)"

text \<open>\<open>s.split(c)\<close> for a one-character separator: the result is never empty.\<close>

fun split_on :: "char \<Rightarrow> string \<Rightarrow> string list" where
  "split_on sep [] = [[]]"
| "split_on sep (c # cs) =
     (if c = sep then [] # split_on sep cs
      else (case split_on sep cs of
              [] \<Rightarrow> [[c]]
            | p # ps \<Rightarrow> (c # p) # ps))"




text \<open>
  \<open>s.replace(p, r)\<close> with a string pattern: only the leftmost occurrence is replaced
  (\<open>r\<close> is a text without \<open>$\<close>, which a replacement would read as a pattern).
\<close>

fun replace :: "string \<Rightarrow> string \<Rightarrow> string \<Rightarrow> string" where
  "replace p r [] = (if p = [] then r else [])"
| "replace p r (c # cs) =
     (if starts_with p (c # cs) then r @ drop (length p) (c # cs)
      else c # replace p r cs)"

text \<open>White space as \<open>\s\<close> and \<open>parseInt\<close> see it: TAB, LF, VT, FF, CR, space, NBSP.\<close>

definition is_space :: "char \<Rightarrow> bool" where
  "is_space c = ((of_char c :: nat) \<in> {9, 10, 11, 12, 13, 32, 160})"


definition digit_val :: "char \<Rightarrow> nat option" where
  "digit_val c =
     (let n = (of_char c :: nat)
      in if 48 \<le> n \<and> n \<le> 57 then Some (n - 48)
         else if 97 \<le> n \<and> n \<le> 122 then Some (n - 87)
         else if 65 \<le> n \<and> n \<le> 90 then Some (n - 55)
         else None)"

definition is_digit :: "nat \<Rightarrow> char \<Rightarrow> bool" where
  "is_digit radix c = (case digit_val c of None \<Rightarrow> False | Some d \<Rightarrow> d < radix)"

definition digits_value :: "nat \<Rightarrow> string \<Rightarrow> nat" where
  "digits_value radix ds =
     foldl (\<lambda>a c. a * radix + (case digit_val c of None \<Rightarrow> 0 | Some d \<Rightarrow> d)) 0 ds"

text \<open>
  \<open>parseInt(s)\<close> without a radix: leading white space, an optional sign, an optional
  \<open>0x\<close> prefix, then the longest run of digits; \<open>NaN\<close> when that run is empty.
\<close>

definition parseInt :: "string \<Rightarrow> jsnum" where
  "parseInt s =
     (let t = dropWhile is_space s;
          neg = starts_with ''-'' t;
          u = (if starts_with ''-'' t \<or> starts_with ''+'' t then drop 1 t else t);
          hex = (starts_with ''0x'' u \<or> starts_with ''0X'' u);
          radix = (if hex then 16 else 10);
          ds = takeWhile (is_digit radix) (if hex then drop 2 u else u)
      in if ds = [] then NaN
         else Num ((if neg then - 1 else 1) * int (digits_value radix ds)))"

text \<open>Decimal rendering of a number inside a template string.\<close>

fun decimal :: "nat \<Rightarrow> string" where
  "decimal n =
     (if n < 10 then [char_of (48 + n)]
      else decimal (n div 10) @ [char_of (48 + n mod 10)])"

declare decimal.simps [simp del]

text \<open>The first element of a list for which \<open>f\<close> succeeds: the order of backtracking.\<close>

fun first_some :: "('a \<Rightarrow> 'b option) \<Rightarrow> 'a list \<Rightarrow> 'b option" where
  "first_some f [] = None"
| "first_some f (x # xs) = (case f x of Some y \<Rightarrow> Some y | None \<Rightarrow> first_some f xs)"

section \<open>Errors\<close>

text \<open>
  The error classes of the module, with the argument given to the constructor, and the
  two errors of the platform that the code can raise: a \<open>TypeError\<close> and a rejected
  \<open>fetch\<close>.
\<close>

datatype error =
    OverpassError string
  | OverpassRateLimitError
  | OverpassBadRequestError string "string list"
  | OverpassGatewayTimeoutError
  | OverpassApiStatusError string
  | TypeError string
  | FetchRejected
  | SyntaxError

section \<open>utils: the status parser\<close>

text \<open>
  The status object. \<open>currentTime\<close> holds the text handed to \<open>Date.parse\<close>: the
  conversion to a timestamp is the platform's and nothing here depends on it. A field
  that was never assigned is \<open>None\<close>.
\<close>

record OverpassApiStatus =
  clientId :: "string option"
  currentTime :: "string option"
  rateLimit :: "jsnum option"
  slotsRunning :: "string list list"
  slotsAvailableAfter :: "jsnum list"

text \<open>
  \<open>xs.append(x)\<close> on an array: arrays have no member \<open>append\<close>, so the call raises a
  \<open>TypeError\<close> and nothing is added.
\<close>

definition array_append :: "'a list \<Rightarrow> 'a \<Rightarrow> error + 'a list" where
  "array_append xs x = Inl (TypeError ''append is not a function'')"

text \<open>The body of the \<open>forEach\<close> callback of \<open>parseApiStatus\<close>, for one line.\<close>

definition parseStatusLine :: "OverpassApiStatus \<Rightarrow> string \<Rightarrow> error + OverpassApiStatus" where
  "parseStatusLine status statusLine =
     (let lineFirstWord = hd (split_on CHR '' '' statusLine)
      in if lineFirstWord = ''Connected'' then
           Inr (status\<lparr>clientId := Some (drop 14 statusLine)\<rparr>)
         else if lineFirstWord = ''Current'' then
           Inr (status\<lparr>currentTime := Some (drop 14 statusLine)\<rparr>)
         else if lineFirstWord = ''Rate'' then
           Inr (status\<lparr>rateLimit := Some (parseInt (drop 12 statusLine))\<rparr>)
         else if lineFirstWord = ''Slot'' then
           (case array_append (slotsAvailableAfter status)
                   (parseInt (hd (split_on CHR '' '' (drop 47 statusLine)))) of
              Inl e \<Rightarrow> Inl e
            | Inr xs \<Rightarrow> Inr (status\<lparr>slotsAvailableAfter := xs\<rparr>))
         else if lineFirstWord \<noteq> ''Currently'' \<and> \<not> includes_str statusLine ''available'' then
           (case array_append (slotsRunning status) (split_on (CHR 0x09) statusLine) of
              Inl e \<Rightarrow> Inl e
            | Inr xs \<Rightarrow> Inr (status\<lparr>slotsRunning := xs\<rparr>))
         else Inr status)"

text \<open>\<open>forEach\<close> over the lines: an exception in the callback ends the loop.\<close>

fun forEachLine :: "OverpassApiStatus \<Rightarrow> string list \<Rightarrow> error + OverpassApiStatus" where
  "forEachLine status [] = Inr status"
| "forEachLine status (l # ls) =
     (case parseStatusLine status l of
        Inl e \<Rightarrow> Inl e
      | Inr status' \<Rightarrow> forEachLine status' ls)"

definition parseApiStatus :: "string \<Rightarrow> error + OverpassApiStatus" where
  "parseApiStatus statusHtml =
     forEachLine
       \<lparr>clientId = None, currentTime = None, rateLimit = None,
        slotsRunning = [], slotsAvailableAfter = []\<rparr>
       (split_on (CHR 0x0A) statusHtml)"

section \<open>utils: options and the bad-request messages\<close>

text \<open>The options. The two numbers are integers; other numbers are outside the model.\<close>

record OverpassOptions =
  endpoint :: string
  numRetries :: int
  retryPause :: int
  verbose :: bool
  userAgent :: string

text \<open>\<open>Partial<OverpassOptions>\<close>: every field may be absent.\<close>

record PartialOptions =
  p_endpoint :: "string option"
  p_numRetries :: "int option"
  p_retryPause :: "int option"
  p_verbose :: "bool option"
  p_userAgent :: "string option"

text \<open>\<open>Object.assign({}, base, overrides)\<close>: a new object, the fields of \<open>overrides\<close> winning.\<close>

definition assign :: "OverpassOptions \<Rightarrow> PartialOptions \<Rightarrow> OverpassOptions" where
  "assign base overrides =
     \<lparr>endpoint = (case p_endpoint overrides of None \<Rightarrow> endpoint base | Some v \<Rightarrow> v),
      numRetries = (case p_numRetries overrides of None \<Rightarrow> numRetries base | Some v \<Rightarrow> v),
      retryPause = (case p_retryPause overrides of None \<Rightarrow> retryPause base | Some v \<Rightarrow> v),
      verbose = (case p_verbose overrides of None \<Rightarrow> verbose base | Some v \<Rightarrow> v),
      userAgent = (case p_userAgent overrides of None \<Rightarrow> userAgent base | Some v \<Rightarrow> v)\<rparr>"

text \<open>A full options object passed where a partial one is expected.\<close>

definition as_partial :: "OverpassOptions \<Rightarrow> PartialOptions" where
  "as_partial opts =
     \<lparr>p_endpoint = Some (endpoint opts), p_numRetries = Some (numRetries opts),
      p_retryPause = Some (retryPause opts), p_verbose = Some (verbose opts),
      p_userAgent = Some (userAgent opts)\<rparr>"

text \<open>
  \<open>oneLessRetry\<close>: \<open>Object.assign({}, opts, {numRetries: opts.numRetries - 1})\<close>.
\<close>

definition oneLessRetry :: "OverpassOptions \<Rightarrow> OverpassOptions" where
  "oneLessRetry opts =
     assign opts
       \<lparr>p_endpoint = None, p_numRetries = Some (numRetries opts - 1), p_retryPause = None,
        p_verbose = None, p_userAgent = None\<rparr>"

text \<open>
  \<open>defaultOpts\<close>. The constant \<open>endpoints.main\<close> is declared in a file that is not part
  of the sources at hand, so it is a parameter.
\<close>

definition defaultOpts :: "string \<Rightarrow> OverpassOptions" where
  "defaultOpts main =
     \<lparr>endpoint = main, numRetries = 1, retryPause = 2000, verbose = False,
      userAgent = ''overpass-ts''\<rparr>"

subsection \<open>Options objects in a store\<close>







subsection \<open>The messages of a bad request\<close>

text \<open>
  One attempt of \<open>/<\/strong>: ([^<]+) <\/p>/\<close> at the start of \<open>s\<close>: the capture and the
  text after the match. The class \<open>[^<]+\<close> is greedy and gives characters back one at
  a time.
\<close>

definition strong_at :: "string \<Rightarrow> (string \<times> string) option" where
  "strong_at s =
     (if starts_with ''</strong>: '' s then
        let r = drop 11 s;
            m = length (takeWhile (\<lambda>c. c \<noteq> CHR ''<'') r)
        in first_some
             (\<lambda>n. if starts_with '' </p>'' (drop n r) then Some (take n r, drop (n + 5) r)
                  else None)
             (rev [1 ..< Suc m])
      else None)"

text \<open>
  \<open>matchAll\<close> with that expression (it has the flag \<open>g\<close>): \<open>exec\<close> resumes after the
  previous match until it finds none.
\<close>

function matchAll :: "string \<Rightarrow> string list" where
  "matchAll s =
     (case strong_at s of
        Some (cap, rest) \<Rightarrow> cap # matchAll rest
      | None \<Rightarrow> (case s of [] \<Rightarrow> [] | c # cs \<Rightarrow> matchAll cs))"
  by pat_completeness auto
termination
proof (relation "measure length")
  fix s :: string and x2 cap rest
  assume m: "strong_at s = Some x2" and x2: "(cap, rest) = x2"
  have pick: "first_some f xs = Some y \<Longrightarrow> \<exists>x \<in> set xs. f x = Some y"
    for f :: "nat \<Rightarrow> (string \<times> string) option" and xs y
    by (induction xs) (auto split: option.splits)
  from m x2 have "length rest < length s"
    by (cases s)
      (auto simp: strong_at_def starts_with_def Let_def split: if_splits dest!: pick)
  then show "(rest, s) \<in> measure length" by simp
qed auto

declare matchAll.simps [simp del]

text \<open>\<open>error.replaceAll("&quot;", '"')\<close>\<close>

function replaceAll_quot :: "string \<Rightarrow> string" where
  "replaceAll_quot [] = []"
| "replaceAll_quot (c # cs) =
     (if starts_with ''&quot;'' (c # cs) then CHR 0x22 # replaceAll_quot (drop 6 (c # cs))
      else c # replaceAll_quot cs)"
  by pat_completeness auto
termination
  by (relation "measure length") auto

section \<open>The network and the clock\<close>

text \<open>
  A decoded JSON document. Numbers are integers here; a document with other numbers is
  outside the model.
\<close>

datatype json =
    JNull
  | JBool bool
  | JNumber int
  | JString string
  | JArray "json list"
  | JObject "(string \<times> json) list"

text \<open>
  A response: \<open>body\<close> is what \<open>resp.text()\<close> resolves to, \<open>json\<close> what \<open>resp.json()\<close>
  resolves to (\<open>None\<close> when the body is not JSON and the call rejects with a
  \<open>SyntaxError\<close>).
\<close>

record Response =
  status :: nat
  statusText :: string
  content_type :: "string option"
  content_length :: "string option"
  body :: string
  json :: "json option"

text \<open>\<open>resp.ok\<close>\<close>

definition ok :: "Response \<Rightarrow> bool" where
  "ok resp = (200 \<le> status resp \<and> status resp \<le> 299)"

text \<open>
  What a call of \<open>fetch\<close> settles to. The POST carries the query, which the code sends
  as \<open>data=\<close> followed by its URL encoding, and the user agent.
\<close>

datatype fetched = Rejected | Resolved Response

datatype request = POST string string string | GET string

datatype message =
    Msg_endpoint string
  | Msg_query string
  | Msg_waiting jsnum
  | Msg_payload jsnum

datatype effect = Fetch request | Sleep jsnum | Console message

text \<open>
  The world is the trace of effects so far. The servers are any sequence of answers: the
  \<open>i\<close>-th call of \<open>fetch\<close> (counting from 0, POST and GET alike) settles to \<open>env i\<close>.
\<close>

type_synonym world = "effect list"
type_synonym env = "nat \<Rightarrow> fetched"

fun is_fetch :: "effect \<Rightarrow> bool" where
  "is_fetch (Fetch rq) = True"
| "is_fetch e = False"

fun is_post :: "effect \<Rightarrow> bool" where
  "is_post (Fetch (POST url q ua)) = True"
| "is_post e = False"

fun is_sleep :: "effect \<Rightarrow> bool" where
  "is_sleep (Sleep ms) = True"
| "is_sleep e = False"

definition fetches :: "world \<Rightarrow> world" where
  "fetches w = filter is_fetch w"

definition posts :: "world \<Rightarrow> nat" where
  "posts w = length (filter is_post w)"

definition sleeps :: "world \<Rightarrow> world" where
  "sleeps w = filter is_sleep w"

definition fetch :: "request \<Rightarrow> env \<Rightarrow> world \<Rightarrow> fetched \<times> world" where
  "fetch rq env w = (env (length (fetches w)), w @ [Fetch rq])"

definition sleep :: "jsnum \<Rightarrow> world \<Rightarrow> world" where
  "sleep ms w = w @ [Sleep ms]"

definition consoleMsg :: "message \<Rightarrow> world \<Rightarrow> world" where
  "consoleMsg msg w = w @ [Console msg]"

text \<open>A script of answers, after which every request is rejected.\<close>

definition replies :: "fetched list \<Rightarrow> env" where
  "replies rs i = (if i < length rs then rs ! i else Rejected)"

section \<open>The status fetch\<close>

text \<open>
  \<open>apiStatus(endpoint)\<close>, the endpoint being \<open>url\<close> here: a GET of the status address, the check of the declared content
  type (\<open>headers.get\<close> gives \<open>null\<close> for an absent header, printed as \<open>null\<close>), the
  parse, and the check that the parsed object has the key \<open>clientId\<close>.
\<close>

definition apiStatus :: "string \<Rightarrow> env \<Rightarrow> world \<Rightarrow> (error + OverpassApiStatus) \<times> world" where
  "apiStatus url env w =
     (case fetch (GET (replace ''/interpreter'' ''/status'' url)) env w of
        (Rejected, w1) \<Rightarrow> (Inl FetchRejected, w1)
      | (Resolved resp, w1) \<Rightarrow>
          (case content_type resp of
             None \<Rightarrow> (Inl (OverpassApiStatusError ''Response type incorrect (null)''), w1)
           | Some responseType \<Rightarrow>
               if responseType = [] \<or> hd (split_on CHR '';'' responseType) \<noteq> ''text/plain''
               then (Inl (OverpassApiStatusError
                            (''Response type incorrect ('' @ responseType @ '')'')), w1)
               else
                 (case parseApiStatus (body resp) of
                    Inl e \<Rightarrow> (Inl e, w1)
                  | Inr st \<Rightarrow>
                      if clientId st = None
                      then (Inl (OverpassApiStatusError ''Unable to parse API Status''), w1)
                      else (Inr st, w1))))"

section \<open>The executor\<close>

text \<open>The arithmetic and comparisons on numbers that the retry branch uses.\<close>

fun js_min :: "jsnum \<Rightarrow> jsnum \<Rightarrow> jsnum" where
  "js_min (Num a) (Num b) = Num (min a b)"
| "js_min a b = NaN"

fun js_plus :: "jsnum \<Rightarrow> jsnum \<Rightarrow> jsnum" where
  "js_plus (Num a) (Num b) = Num (a + b)"
| "js_plus a b = NaN"

fun js_times :: "jsnum \<Rightarrow> jsnum \<Rightarrow> jsnum" where
  "js_times (Num a) (Num b) = Num (a * b)"
| "js_times a b = NaN"

text \<open>\<open>x > n\<close> for a field that may be undefined or \<open>NaN\<close>: both compare false.\<close>

fun js_gt :: "jsnum option \<Rightarrow> int \<Rightarrow> bool" where
  "js_gt (Some (Num a)) b = (b < a)"
| "js_gt x b = False"

text \<open>\<open>Math.min(x, ...xs)\<close>\<close>

definition Math_min :: "jsnum \<Rightarrow> jsnum list \<Rightarrow> jsnum" where
  "Math_min x xs = foldl js_min x xs"

text \<open>
  The condition of the \<open>if\<close> in the branch for status 429, and the constant
  \<open>lowestWaitTime\<close> of its \<open>else\<close>.
\<close>

definition retryImmediately :: "OverpassApiStatus \<Rightarrow> bool" where
  "retryImmediately st =
     (js_gt (rateLimit st)
        (int (length (slotsAvailableAfter st)) + int (length (slotsRunning st)))
      \<or> rateLimit st = Some (Num 0))"

definition lowestWaitTime :: "OverpassApiStatus \<Rightarrow> jsnum" where
  "lowestWaitTime st =
     js_plus (Math_min (Num 0) (slotsAvailableAfter st)) (Num 1)"

text \<open>
  The callback that receives the status (\<open>st\<close>) in the branch for 429. \<open>again\<close> stands
  for the call \<open>overpass(query, \<dots>)\<close> it ends with.
\<close>

definition afterApiStatus ::
  "(OverpassOptions \<Rightarrow> world \<Rightarrow> 'r) \<Rightarrow> OverpassOptions \<Rightarrow> OverpassApiStatus \<Rightarrow> world \<Rightarrow> 'r" where
  "afterApiStatus again opts st w =
     (if retryImmediately st then again (oneLessRetry opts) w
      else
        let w1 = (if verbose opts
                  then consoleMsg (Msg_waiting (lowestWaitTime st)) w else w)
        in again (oneLessRetry opts)
             (sleep (js_times (lowestWaitTime st) (Num 1000)) w1))"

text \<open>
  \<open>overpass(query, overpassOpts)\<close>. Every call takes one unit of fuel; \<open>None\<close> means
  that the fuel ran out before the promise settled. \<open>Inl\<close> is a rejection, \<open>Inr\<close> the
  response the promise resolves to.
\<close>

fun overpass ::
  "nat \<Rightarrow> string \<Rightarrow> string \<Rightarrow> PartialOptions \<Rightarrow> env \<Rightarrow> world
     \<Rightarrow> ((error + Response) \<times> world) option" where
  "overpass 0 main query overpassOpts env w = None"
| "overpass (Suc fuel) main query overpassOpts env w =
     (let opts = assign (defaultOpts main) overpassOpts;
          w0 = (if verbose opts
                then consoleMsg (Msg_query query) (consoleMsg (Msg_endpoint (endpoint opts)) w)
                else w)
      in case fetch (POST (endpoint opts) query (userAgent opts)) env w0 of
           (Rejected, w1) \<Rightarrow> Some (Inl FetchRejected, w1)
         | (Resolved resp, w1) \<Rightarrow>
             if \<not> ok resp then
               if status resp = 400 then
                 Some (Inl (OverpassBadRequestError query
                              (map replaceAll_quot (matchAll (body resp)))), w1)
               else if status resp = 429 then
                 if numRetries opts = 0 then Some (Inl OverpassRateLimitError, w1)
                 else
                   (case apiStatus (endpoint opts) env w1 of
                      (Inl e, w2) \<Rightarrow> Some (Inl e, w2)
                    | (Inr st, w2) \<Rightarrow>
                        afterApiStatus
                          (\<lambda>opts' w'. overpass fuel main query (as_partial opts') env w')
                          opts st w2)
               else if status resp = 504 then
                 if numRetries opts = 0 then Some (Inl OverpassGatewayTimeoutError, w1)
                 else overpass fuel main query (as_partial (oneLessRetry opts)) env
                        (sleep (Num (retryPause opts)) w1)
               else
                 Some (Inl (OverpassError (decimal (status resp) @ '' '' @ statusText resp)), w1)
             else
               Some (Inr resp,
                     (case content_length resp of
                        None \<Rightarrow> w1
                      | Some n \<Rightarrow>
                          if verbose opts then consoleMsg (Msg_payload (parseInt n)) w1
                          else w1)))"

section \<open>The result adapters\<close>









section \<open>The wording of the specification\<close>


text \<open>
  The address of the status request, as the specification writes it: the endpoint with
  its trailing \<open>/interpreter\<close> replaced by \<open>/status\<close>.
\<close>

definition ends_with :: "string \<Rightarrow> string \<Rightarrow> bool" where
  "ends_with p s = (length p \<le> length s \<and> drop (length s - length p) s = p)"

definition status_address :: "string \<Rightarrow> string" where
  "status_address url =
     (if ends_with ''/interpreter'' url
      then take (length url - length ''/interpreter'') url @ ''/status''
      else url)"



section \<open>Sample data\<close>

text \<open>Concrete inputs on which the theorems below are instantiated.\<close>

definition no_overrides :: PartialOptions where
  "no_overrides =
     \<lparr>p_endpoint = None, p_numRetries = None, p_retryPause = None, p_verbose = None,
      p_userAgent = None\<rparr>"

definition no_retries :: PartialOptions where
  "no_retries = no_overrides\<lparr>p_numRetries := Some 0\<rparr>"

definition answer :: "nat \<Rightarrow> string \<Rightarrow> Response" where
  "answer code txt =
     \<lparr>status = code, statusText = [], content_type = Some ''text/plain; charset=utf-8'',
      content_length = None, body = txt, json = None\<rparr>"



text \<open>
  A status report of a client whose only slot is taken, and the snapshot that the
  specification reads from it.
\<close>

definition saturated_report :: string where
  "saturated_report =
     ''Connected as: 1'' @ [CHR 0x0A] @ ''Rate limit: 1'' @ [CHR 0x0A]
     @ ''Slot available after: 2021-01-01T00:00:05Z, in 5 seconds.'' @ [CHR 0x0A]
     @ ''Currently running queries (pid, space limit, time limit, start time):'' @ [CHR 0x0A]
     @ ''1234'' @ [CHR 0x09] @ ''536870912'' @ [CHR 0x09] @ ''180'' @ [CHR 0x09]
     @ ''2021-01-01T00:00:00Z''"

definition saturated :: OverpassApiStatus where
  "saturated =
     \<lparr>clientId = Some ''1'', currentTime = None, rateLimit = Some (Num 1),
      slotsRunning = [[''1234'', ''536870912'', ''180'', ''2021-01-01T00:00:00Z'']],
      slotsAvailableAfter = [Num 5]\<rparr>"




section \<open>Basic facts\<close>

lemma assign_as_partial [simp]: "assign base (as_partial opts) = opts"
  by (simp add: assign_def as_partial_def)

lemma oneLessRetry_fields [simp]:
  "numRetries (oneLessRetry opts) = numRetries opts - 1"
  "endpoint (oneLessRetry opts) = endpoint opts"
  "retryPause (oneLessRetry opts) = retryPause opts"
  "verbose (oneLessRetry opts) = verbose opts"
  "userAgent (oneLessRetry opts) = userAgent opts"
  by (simp_all add: oneLessRetry_def assign_def)

lemma posts_simps [simp]:
  "posts [] = 0"
  "posts (w @ v) = posts w + posts v"
  "posts (Fetch (POST url q ua) # w) = Suc (posts w)"
  "posts (Fetch (GET url) # w) = posts w"
  "posts (Sleep ms # w) = posts w"
  "posts (Console msg # w) = posts w"
  "posts (sleep ms w) = posts w"
  "posts (consoleMsg msg w) = posts w"
  by (simp_all add: posts_def sleep_def consoleMsg_def)

lemma fetches_simps [simp]:
  "fetches [] = []"
  "fetches (w @ v) = fetches w @ fetches v"
  "fetches (Fetch rq # w) = Fetch rq # fetches w"
  "fetches (Sleep ms # w) = fetches w"
  "fetches (Console msg # w) = fetches w"
  "fetches (sleep ms w) = fetches w"
  "fetches (consoleMsg msg w) = fetches w"
  by (simp_all add: fetches_def sleep_def consoleMsg_def)

lemma sleeps_simps [simp]:
  "sleeps [] = []"
  "sleeps (w @ v) = sleeps w @ sleeps v"
  "sleeps (Fetch rq # w) = sleeps w"
  "sleeps (Sleep ms # w) = Sleep ms # sleeps w"
  "sleeps (Console msg # w) = sleeps w"
  "sleeps (sleep ms w) = sleeps w @ [Sleep ms]"
  "sleeps (consoleMsg msg w) = sleeps w"
  by (simp_all add: sleeps_def sleep_def consoleMsg_def)

lemma fetch_world: "fetch rq env w = (env (length (fetches w)), w @ [Fetch rq])"
  by (simp add: fetch_def)

lemma apiStatus_world:
  "snd (apiStatus url env w) = w @ [Fetch (GET (replace ''/interpreter'' ''/status'' url))]"
  by (simp add: apiStatus_def fetch_def split: fetched.splits option.splits sum.splits)


lemma overpass_unfold:
  assumes "opts = assign (defaultOpts main) overpassOpts"
    and "w0 = (if verbose opts
        then consoleMsg (Msg_query query) (consoleMsg (Msg_endpoint (endpoint opts)) w) else w)"
    and "w1 = w0 @ [Fetch (POST (endpoint opts) query (userAgent opts))]"
    and "env (length (fetches w0)) = Resolved resp"
  shows "overpass (Suc k) main query overpassOpts env w =
      (if \<not> ok resp then
               if status resp = 400 then
                 Some (Inl (OverpassBadRequestError query
                              (map replaceAll_quot (matchAll (body resp)))), w1)
               else if status resp = 429 then
                 if numRetries opts = 0 then Some (Inl OverpassRateLimitError, w1)
                 else
                   (case apiStatus (endpoint opts) env w1 of
                      (Inl e, w2) \<Rightarrow> Some (Inl e, w2)
                    | (Inr st, w2) \<Rightarrow>
                        afterApiStatus
                          (\<lambda>opts' w'. overpass k main query (as_partial opts') env w')
                          opts st w2)
               else if status resp = 504 then
                 if numRetries opts = 0 then Some (Inl OverpassGatewayTimeoutError, w1)
                 else overpass k main query (as_partial (oneLessRetry opts)) env
                        (sleep (Num (retryPause opts)) w1)
               else
                 Some (Inl (OverpassError (decimal (status resp) @ '' '' @ statusText resp)), w1)
             else
               Some (Inr resp,
                     (case content_length resp of
                        None \<Rightarrow> w1
                      | Some n \<Rightarrow>
                          if verbose opts then consoleMsg (Msg_payload (parseInt n)) w1
                          else w1)))"
  using assms(4) unfolding assms(3) assms(2) assms(1)
  by (simp add: Let_def fetch_def)



lemma js_min_NaN [simp]: "js_min NaN b = NaN" "js_min a NaN = NaN"
  by (cases b; simp) (cases a; simp)

lemma foldl_js_min: "foldl js_min (js_min a b) xs = js_min a (foldl js_min b xs)"
proof (induction xs arbitrary: b)
  case Nil
  show ?case by simp
next
  case (Cons x xs)
  have "js_min (js_min a b) x = js_min a (js_min b x)"
    by (cases a; cases b; cases x) (simp_all add: min.assoc)
  then show ?case using Cons.IH [of "js_min b x"] by simp
qed

lemma lowestWaitTime_one:
  assumes "slotsAvailableAfter st = x # xs" and "Math_min x xs = Num m" and "0 \<le> m"
  shows "lowestWaitTime st = Num 1"
proof -
  have "Math_min (Num 0) (x # xs) = js_min (Num 0) (Math_min x xs)"
    by (simp add: Math_min_def foldl_js_min)
  then show ?thesis using assms by (simp add: lowestWaitTime_def)
qed


lemma parseStatusLine_lists:
  "parseStatusLine st l = Inr st' \<Longrightarrow>
     slotsRunning st' = slotsRunning st \<and> slotsAvailableAfter st' = slotsAvailableAfter st"
  by (auto simp: parseStatusLine_def array_append_def Let_def split: if_splits)

lemma forEachLine_lists:
  "forEachLine st ls = Inr st' \<Longrightarrow>
     slotsRunning st' = slotsRunning st \<and> slotsAvailableAfter st' = slotsAvailableAfter st"
proof (induction ls arbitrary: st)
  case Nil
  then show ?case by simp
next
  case (Cons l ls)
  then obtain st1 where 1: "parseStatusLine st l = Inr st1" and 2: "forEachLine st1 ls = Inr st'"
    by (auto split: sum.splits)
  from Cons.IH [OF 2] parseStatusLine_lists [OF 1] show ?case by simp
qed

lemma parseApiStatus_lists_empty:
  "parseApiStatus statusHtml = Inr st \<Longrightarrow> slotsRunning st = [] \<and> slotsAvailableAfter st = []"
  unfolding parseApiStatus_def by (drule forEachLine_lists) simp

lemma apiStatus_when_parse_returns:
  assumes "env (length (fetches w)) = Resolved resp" and "parseApiStatus (body resp) = Inr st"
  shows "fst (apiStatus url env w) =
           (case content_type resp of
              None \<Rightarrow> Inl (OverpassApiStatusError ''Response type incorrect (null)'')
            | Some t \<Rightarrow>
                if hd (split_on CHR '';'' t) \<noteq> ''text/plain''
                then Inl (OverpassApiStatusError (''Response type incorrect ('' @ t @ '')''))
                else if clientId st = None
                then Inl (OverpassApiStatusError ''Unable to parse API Status'')
                else Inr st)"
  using assms by (auto simp: apiStatus_def fetch_def split: option.splits)

lemma replace_absent: "p \<noteq> [] \<Longrightarrow> \<not> includes_str s p \<Longrightarrow> replace p r s = s"
  by (induction s) auto

lemma starts_with_append: "starts_with p (p @ s)"
  by (simp add: starts_with_def)

lemma starts_with_shorten:
  assumes "starts_with p (a @ b)" and "length p \<le> length a"
  shows "starts_with p a"
  using assms by (simp add: starts_with_def)

lemma replace_leftmost:
  assumes "p \<noteq> []" and "\<not> includes_str (pre @ butlast p) p"
  shows "replace p r (pre @ p @ post) = pre @ r @ post"
  using assms(2)
proof (induction pre)
  case Nil
  from assms(1) obtain c cs where p: "p = c # cs" by (cases p) auto
  have "starts_with (c # cs) (c # cs @ post)" using starts_with_append [of "c # cs" post] by simp
  then show ?case by (simp add: p)
next
  case (Cons c pre)
  have split: "c # pre @ p @ post = (c # pre @ butlast p) @ ([last p] @ post)"
    using assms(1) by simp
  have "\<not> starts_with p (c # pre @ butlast p)" using Cons.prems by simp
  moreover have "length p \<le> length (c # pre @ butlast p)" by simp
  ultimately have "\<not> starts_with p (c # pre @ p @ post)"
    unfolding split using starts_with_shorten by blast
  moreover have "\<not> includes_str (pre @ butlast p) p" using Cons.prems by simp
  ultimately show ?case using Cons.IH by simp
qed

lemma status_address_suffix: "status_address (pre @ ''/interpreter'') = pre @ ''/status''"
  by (simp add: status_address_def ends_with_def)






section \<open>The delayed retry after status 429\<close>

text \<open>
  C1. The claim: with a snapshot of \<open>rateLimit = 1\<close>, one running query and
  \<open>slotsAvailableAfter = [5]\<close>, the executor suspends for 6 seconds before it retries. The
  code does otherwise, twice over. Given that snapshot, the callback does not retry at
  once, computes \<open>Math.min(0, 5) + 1 = 1\<close> and suspends for 1000 milliseconds. And a
  status report with those contents never becomes a snapshot: the parser raises a
  \<open>TypeError\<close> at the line of the slot, which rejects the whole call after the POST and the
  GET, with no suspension and no retry.
\<close>

theorem saturated_wait_is_one_second:
  "\<not> retryImmediately saturated
   \<and> lowestWaitTime saturated = Num 1
   \<and> afterApiStatus again opts saturated w
       = again (oneLessRetry opts)
           (sleep (Num 1000)
              (if verbose opts then consoleMsg (Msg_waiting (Num 1)) w else w))
   \<and> overpass 2 ''//m/api/interpreter'' ''node(1);out;'' no_overrides
        (replies [Resolved (answer 429 []), Resolved (answer 200 saturated_report)]) []
      = Some (Inl (TypeError ''append is not a function''),
              [Fetch (POST ''//m/api/interpreter'' ''node(1);out;'' ''overpass-ts''),
               Fetch (GET ''//m/api/status'')])"
proof -
  have a: "\<not> retryImmediately saturated" "lowestWaitTime saturated = Num 1"
    by (simp_all add: retryImmediately_def lowestWaitTime_def Math_min_def saturated_def)
  have b: "overpass 2 ''//m/api/interpreter'' ''node(1);out;'' no_overrides
        (replies [Resolved (answer 429 []), Resolved (answer 200 saturated_report)]) []
      = Some (Inl (TypeError ''append is not a function''),
              [Fetch (POST ''//m/api/interpreter'' ''node(1);out;'' ''overpass-ts''),
               Fetch (GET ''//m/api/status'')])"
    by code_simp
  show ?thesis using a b by (simp add: afterApiStatus_def)
qed

section \<open>The status parser raises\<close>

text \<open>
  C2. The claim: the parser returns a snapshot for every text and never raises. The code
  raises a \<open>TypeError\<close> as soon as a line makes it append to one of the two lists: on the
  empty text, on a report that ends with a line feed, on a report with a slot line or a
  running query.
\<close>

theorem parseApiStatus_raises:
  "parseApiStatus [] = Inl (TypeError ''append is not a function'')
   \<and> parseApiStatus (''Connected as: 1'' @ [CHR 0x0A])
       = Inl (TypeError ''append is not a function'')
   \<and> parseApiStatus saturated_report = Inl (TypeError ''append is not a function'')"
  by code_simp

section \<open>No retry without a budget\<close>

text \<open>
  C3. With \<open>numRetries = 0\<close>, when the POST is answered with status 429 the call rejects
  with the rate limit error, and when it is answered with status 504 it rejects with the
  gateway timeout error; in both cases the POST is the only request sent and the call
  never suspends.
\<close>

theorem no_budget_no_retry:
  assumes "numRetries (assign (defaultOpts main) overpassOpts) = 0"
    and "env (length (fetches w)) = Resolved resp"
  shows "(status resp = 429 \<longrightarrow>
            (\<exists>w'. overpass (Suc fuel) main query overpassOpts env w
                     = Some (Inl OverpassRateLimitError, w')
                 \<and> fetches w' = fetches w
                     @ [Fetch (POST (endpoint (assign (defaultOpts main) overpassOpts)) query
                                (userAgent (assign (defaultOpts main) overpassOpts)))]
                 \<and> sleeps w' = sleeps w))
       \<and> (status resp = 504 \<longrightarrow>
            (\<exists>w'. overpass (Suc fuel) main query overpassOpts env w
                     = Some (Inl OverpassGatewayTimeoutError, w')
                 \<and> fetches w' = fetches w
                     @ [Fetch (POST (endpoint (assign (defaultOpts main) overpassOpts)) query
                                (userAgent (assign (defaultOpts main) overpassOpts)))]
                 \<and> sleeps w' = sleeps w))"
proof -
  define opts where "opts = assign (defaultOpts main) overpassOpts"
  define w0 where "w0 = (if verbose opts
        then consoleMsg (Msg_query query) (consoleMsg (Msg_endpoint (endpoint opts)) w)
        else w)"
  define w1 where "w1 = w0 @ [Fetch (POST (endpoint opts) query (userAgent opts))]"
  have e: "env (length (fetches w0)) = Resolved resp"
    using assms(2) by (simp add: w0_def)
  note unfold = overpass_unfold [where env = env and k = fuel, OF opts_def w0_def w1_def e]
  have zero: "numRetries opts = 0" using assms(1) by (simp add: opts_def)
  have trace: "fetches w1 = fetches w @ [Fetch (POST (endpoint opts) query (userAgent opts))]"
    "sleeps w1 = sleeps w"
    by (simp_all add: w1_def w0_def)
  have "overpass (Suc fuel) main query overpassOpts env w = Some (Inl OverpassRateLimitError, w1)"
    if "status resp = 429"
    unfolding unfold using that zero by (simp add: ok_def)
  moreover have "overpass (Suc fuel) main query overpassOpts env w
                   = Some (Inl OverpassGatewayTimeoutError, w1)"
    if "status resp = 504"
    unfolding unfold using that zero by (simp add: ok_def)
  ultimately show ?thesis using trace unfolding opts_def by blast
qed

theorem no_budget_no_retry_witness:
  "(\<exists>w'. overpass (Suc 0) ''//m/api/interpreter'' ''node(1);out;'' no_retries
            (replies [Resolved (answer 429 [])]) []
          = Some (Inl OverpassRateLimitError, w')
        \<and> fetches w' = [Fetch (POST ''//m/api/interpreter'' ''node(1);out;'' ''overpass-ts'')]
        \<and> sleeps w' = [])
   \<and> (\<exists>w'. overpass (Suc 0) ''//m/api/interpreter'' ''node(1);out;'' no_retries
            (replies [Resolved (answer 504 [])]) []
          = Some (Inl OverpassGatewayTimeoutError, w')
        \<and> fetches w' = [Fetch (POST ''//m/api/interpreter'' ''node(1);out;'' ''overpass-ts'')]
        \<and> sleeps w' = [])"
  using
    no_budget_no_retry [of "''//m/api/interpreter''" no_retries
      "replies [Resolved (answer 429 [])]" "[]" "answer 429 []" 0 "''node(1);out;''"]
    no_budget_no_retry [of "''//m/api/interpreter''" no_retries
      "replies [Resolved (answer 504 [])]" "[]" "answer 504 []" 0 "''node(1);out;''"]
  by (simp add: assign_def defaultOpts_def no_retries_def no_overrides_def replies_def
      answer_def)

section \<open>The immediate retry after status 429\<close>



section \<open>The status fetch\<close>

text \<open>
  C5. The claim: the status fetch raises an API status error exactly when the declared
  content type is not \<open>text/plain\<close> or the parsed snapshot has no \<open>clientId\<close>, and returns
  the parsed snapshot otherwise. The code does so whenever the parser returns
  (\<open>apiStatus_when_parse_returns\<close>). But on a report of type \<open>text/plain\<close> that names the
  client and ends with a line feed, the parser raises and the fetch rejects with a
  \<open>TypeError\<close>: neither an API status error nor a snapshot. Without the final line feed
  the same report gives the snapshot.
\<close>

theorem apiStatus_raises_type_error:
  "apiStatus ''//m/api/interpreter''
     (replies [Resolved (answer 200 (''Connected as: 1'' @ [CHR 0x0A]))]) []
   = (Inl (TypeError ''append is not a function''), [Fetch (GET ''//m/api/status'')])
   \<and> apiStatus ''//m/api/interpreter''
     (replies [Resolved (answer 200 ''Connected as: 1'')]) []
   = (Inr \<lparr>clientId = Some ''1'', currentTime = None, rateLimit = None, slotsRunning = [],
          slotsAvailableAfter = []\<rparr>, [Fetch (GET ''//m/api/status'')])"
  by code_simp

section \<open>Remarks in a successful response\<close>




section \<open>The address of the status request\<close>

text \<open>
  C7. The claim: the status request goes to the endpoint with its trailing
  \<open>/interpreter\<close> replaced by \<open>/status\<close>, not with some earlier occurrence replaced. The
  counterexample is an endpoint with two occurrences: the code replaces the first. Amended:
  the status request goes to the endpoint with the leftmost occurrence of
  \<open>/interpreter\<close> replaced by \<open>/status\<close>, and to the endpoint itself when there is none;
  that is the address of the specification when the endpoint ends with its only
  occurrence.
\<close>

theorem status_request_url:
  "snd (apiStatus url env w) = w @ [Fetch (GET (replace ''/interpreter'' ''/status'' url))]
   \<and> (\<not> includes_str url ''/interpreter'' \<longrightarrow> replace ''/interpreter'' ''/status'' url = url)
   \<and> (url = pre @ ''/interpreter'' @ post \<and> \<not> includes_str (pre @ ''/interprete'') ''/interpreter''
        \<longrightarrow> replace ''/interpreter'' ''/status'' url = pre @ ''/status'' @ post)
   \<and> (url = pre @ ''/interpreter'' \<and> \<not> includes_str (pre @ ''/interprete'') ''/interpreter''
        \<longrightarrow> replace ''/interpreter'' ''/status'' url = status_address url)"
proof -
  have a: "replace ''/interpreter'' ''/status'' (pre @ ''/interpreter'' @ post) = pre @ ''/status'' @ post"
    if "\<not> includes_str (pre @ ''/interprete'') ''/interpreter''" for post
    using replace_leftmost [of "''/interpreter''" pre "''/status''" post] that by simp
  have b: "replace ''/interpreter'' ''/status'' url = url" if "\<not> includes_str url ''/interpreter''"
    using replace_absent [of "''/interpreter''" url "''/status''"] that by simp
  show ?thesis
    using a [of post] a [of "[]"] b apiStatus_world [of url env w] status_address_suffix [of pre]
    by auto
qed

theorem status_request_url_witness:
  "snd (apiStatus ''//m/api/interpreter'' (replies []) []) = [Fetch (GET ''//m/api/status'')]
   \<and> replace ''/interpreter'' ''/status'' ''//m/api/interpreter'' = status_address ''//m/api/interpreter''
   \<and> replace ''/interpreter'' ''/status'' ''//m/api/interpreter?x'' = ''//m/api/status?x''
   \<and> replace ''/interpreter'' ''/status'' ''//m/api'' = ''//m/api''"
  using status_request_url [of "''//m/api/interpreter''" "replies []" "[]" "''//m/api''" "[]"]
    status_request_url [of "''//m/api/interpreter?x''" "replies []" "[]" "''//m/api''" "''?x''"]
    status_request_url [of "''//m/api''" "replies []" "[]" "[]" "[]"]
  by (simp add: starts_with_def status_address_def ends_with_def)

theorem status_request_url_counterexample:
  "snd (apiStatus ''https://maps.example/interpreter/api/interpreter'' (replies []) [])
     = [Fetch (GET ''https://maps.example/status/api/interpreter'')]
   \<and> status_address ''https://maps.example/interpreter/api/interpreter''
     = ''https://maps.example/interpreter/api/status''
   \<and> snd (apiStatus ''https://maps.example/interpreter/api/interpreter'' (replies []) [])
     \<noteq> [Fetch (GET (status_address ''https://maps.example/interpreter/api/interpreter''))]"
  by (simp add: apiStatus_def fetch_def replies_def starts_with_def status_address_def ends_with_def)

section \<open>The wait before a delayed retry\<close>

text \<open>
  C8. For a snapshot whose list \<open>slotsAvailableAfter\<close> is not empty and has a minimum
  \<open>m \<ge> 0\<close>, the wait that the code computes is a number of at least 1 second, and it is
  the time for which the callback suspends when it does not retry at once.
\<close>

theorem wait_at_least_one_second:
  assumes "slotsAvailableAfter st \<noteq> []"
    and "Math_min (hd (slotsAvailableAfter st)) (tl (slotsAvailableAfter st)) = Num m"
    and "0 \<le> m"
  shows "\<exists>t. lowestWaitTime st = Num t \<and> 1 \<le> t
           \<and> (\<not> retryImmediately st \<longrightarrow>
                sleeps (afterApiStatus (\<lambda>opts' w'. w') opts st w)
                  = sleeps w @ [Sleep (Num (t * 1000))])"
proof -
  from assms(1) obtain x xs where xs: "slotsAvailableAfter st = x # xs"
    by (cases "slotsAvailableAfter st") auto
  with assms have "lowestWaitTime st = Num 1"
    by (intro lowestWaitTime_one [of st x xs m]) simp_all
  then show ?thesis by (simp add: afterApiStatus_def)
qed

theorem wait_at_least_one_second_witness:
  "slotsAvailableAfter saturated \<noteq> []
   \<and> Math_min (hd (slotsAvailableAfter saturated)) (tl (slotsAvailableAfter saturated)) = Num 5
   \<and> (\<exists>t. lowestWaitTime saturated = Num t \<and> 1 \<le> t
          \<and> sleeps (afterApiStatus (\<lambda>opts' w'. w') (defaultOpts ''//m/api/interpreter'')
                      saturated [])
              = [Sleep (Num (t * 1000))])"
proof -
  have h1: "slotsAvailableAfter saturated \<noteq> []" by (simp add: saturated_def)
  have h2: "Math_min (hd (slotsAvailableAfter saturated)) (tl (slotsAvailableAfter saturated))
              = Num 5"
    by (simp add: saturated_def Math_min_def)
  have h3: "(0 :: int) \<le> 5" by simp
  have n: "\<not> retryImmediately saturated"
    by (simp add: retryImmediately_def saturated_def)
  from wait_at_least_one_second [OF h1 h2 h3, of "defaultOpts ''//m/api/interpreter''" "[]"] n
  show ?thesis using h1 h2 by simp
qed

section \<open>The configuration of a retry\<close>



section \<open>The retry budget bounds the number of requests\<close>



end
